theory Spec2Isabelle
  imports Complex_Main
begin

section \<open>Data model\<close>

text \<open>
  \<^verbatim>\<open>Song\<close> (types/api): the store reads only \<^verbatim>\<open>id\<close> and \<^verbatim>\<open>duration\<close> of a song; the
  other fields are carried along unread, \<^verbatim>\<open>name\<close> stands for them. A TypeScript
  \<^verbatim>\<open>number\<close> is modelled as a real (times, volume) or as an integer (array indices).
\<close>

record Song =
  song_id :: string
  song_name :: string
  song_duration :: real

datatype RepeatMode = Off | One | All

text \<open>The state fields of \<^verbatim>\<open>interface PlayerState\<close> in store/playerStore.ts.\<close>

record PlayerState =
  currentSong :: "Song option"
  queue :: "Song list"
  originalQueue :: "Song list"
  shuffledQueue :: "Song list"
  isPlaying :: bool
  currentTime :: real
  duration :: real
  isLoading :: bool
  shuffle :: bool
  repeat :: RepeatMode
  volume :: real

text \<open>
  The MMKV instance of utils/storage: one slot per entry of \<^verbatim>\<open>KEYS\<close>, \<open>None\<close> while the
  key is absent. A slot written with \<^verbatim>\<open>JSON.stringify\<close> holds the value that
  \<^verbatim>\<open>JSON.parse\<close> gives back from it; such a string is never empty, so the test
  \<^verbatim>\<open>if (queueJson)\<close> is the test that the key is present.
\<close>

record Storage =
  QUEUE :: "Song list option"
  CURRENT_SONG :: "Song option"
  REPEAT :: "RepeatMode option"
  SHUFFLE :: "bool option"
  VOLUME :: "real option"
  SHUFFLED_QUEUE :: "Song list option"
  ORIGINAL_QUEUE :: "Song list option"

text \<open>
  One call of \<^verbatim>\<open>Math.random()\<close>. The code uses the value \<open>x\<close> it returns only in
  \<^verbatim>\<open>Math.floor(x * n)\<close>, with \<open>n\<close> the length of a queue, so a draw is given as the
  integer that expression yields for each \<open>n\<close>. This leaves open how the double
  product rounds: whatever \<open>x\<close> and the rounding are, the call is one of these
  functions.
\<close>

type_synonym draw = "nat \<Rightarrow> int"

text \<open>
  Everything an action of the store can read or write: the zustand state, the module
  variable \<^verbatim>\<open>playHistory\<close>, the storage, and the coming calls of
  \<^verbatim>\<open>Math.random()\<close>, in order.
\<close>

record World =
  store :: PlayerState
  playHistory :: "Song list"
  storage :: Storage
  randoms :: "draw list"

text \<open>
  \<open>TypeError\<close>: a property read on \<^verbatim>\<open>undefined\<close>. \<open>NoMoreDraws\<close>: the list of
  draws ended while the code was still drawing, so the call has not returned.
\<close>

datatype error = TypeError | NoMoreDraws

section \<open>Array helpers\<close>

fun findIndexFrom :: "('a \<Rightarrow> bool) \<Rightarrow> 'a list \<Rightarrow> int \<Rightarrow> int" where
  "findIndexFrom p [] k = - 1"
| "findIndexFrom p (x # xs) k = (if p x then k else findIndexFrom p xs (k + 1))"

definition findIndex :: "('a \<Rightarrow> bool) \<Rightarrow> 'a list \<Rightarrow> int" where
  "findIndex p xs = findIndexFrom p xs 0"

text \<open>\<^verbatim>\<open>xs[i]\<close>: \<open>None\<close> is \<^verbatim>\<open>undefined\<close>.\<close>

definition elemAt :: "'a list \<Rightarrow> int \<Rightarrow> 'a option" where
  "elemAt xs i = (if 0 \<le> i \<and> i < int (length xs) then Some (xs ! nat i) else None)"

text \<open>\<^verbatim>\<open>xs.slice(-n)\<close> and \<^verbatim>\<open>xs.slice(0, -1)\<close>.\<close>

definition sliceLast :: "nat \<Rightarrow> 'a list \<Rightarrow> 'a list" where
  "sliceLast n xs = drop (length xs - n) xs"

definition sliceButLast :: "'a list \<Rightarrow> 'a list" where
  "sliceButLast xs = take (length xs - 1) xs"

text \<open>\<^verbatim>\<open>xs.filter((_, i) => i !== index)\<close>.\<close>

definition removeAt :: "int \<Rightarrow> 'a list \<Rightarrow> 'a list" where
  "removeAt i xs = (if 0 \<le> i then take (nat i) xs @ drop (nat i + 1) xs else xs)"

text \<open>
  \<^verbatim>\<open>xs.splice(i, 0, x)\<close> for \<open>0 \<le> i\<close>: a start beyond the end inserts at the end.
\<close>

definition insertAt :: "int \<Rightarrow> 'a \<Rightarrow> 'a list \<Rightarrow> 'a list" where
  "insertAt i x xs = take (nat i) xs @ x # drop (nat i) xs"

text \<open>\<^verbatim>\<open>x || 0\<close> on a number.\<close>

definition orZero :: "real \<Rightarrow> real" where
  "orZero x = (if x = 0 then 0 else x)"

section \<open>Queue selection (store/playerStore.ts)\<close>

definition getEffectiveQueue :: "PlayerState \<Rightarrow> Song list" where
  "getEffectiveQueue state =
     (if shuffle state \<and> length (shuffledQueue state) > 0 then shuffledQueue state
      else if \<not> shuffle state \<and> length (originalQueue state) > 0 then originalQueue state
      else queue state)"

text \<open>\<^verbatim>\<open>Math.floor(Math.random() * n)\<close> for the draw \<open>r\<close>.\<close>

definition randomIndex :: "draw \<Rightarrow> nat \<Rightarrow> int" where
  "randomIndex r n = r n"

text \<open>
  \<^verbatim>\<open>let i = draw(); while (i === currentIndex && queue.length > 1) i = draw(); return i\<close>
\<close>

fun resample :: "int \<Rightarrow> nat \<Rightarrow> draw list \<Rightarrow> error + (int option \<times> draw list)" where
  "resample currentIndex n [] = Inl NoMoreDraws"
| "resample currentIndex n (r # rs) =
     (if randomIndex r n = currentIndex \<and> n > 1 then resample currentIndex n rs
      else Inr (Some (randomIndex r n), rs))"

definition getNextSongIndex ::
  "int \<Rightarrow> Song list \<Rightarrow> bool \<Rightarrow> RepeatMode \<Rightarrow> draw list \<Rightarrow> error + (int option \<times> draw list)" where
  "getNextSongIndex currentIndex q shuf rep rs =
     (if length q = 0 then Inr (None, rs)
      else if rep = One then Inr (Some currentIndex, rs)
      else if rep = All \<and> currentIndex = int (length q) - 1 then
        (if shuf then
           (case rs of [] \<Rightarrow> Inl NoMoreDraws
            | r # rs' \<Rightarrow> Inr (Some (randomIndex r (length q)), rs'))
         else Inr (Some 0, rs))
      else if currentIndex < int (length q) - 1 then
        (if shuf then resample currentIndex (length q) rs
         else Inr (Some (currentIndex + 1), rs))
      else if rep = All then
        (if shuf then resample currentIndex (length q) rs else Inr (Some 0, rs))
      else Inr (None, rs))"

definition getPreviousSongIndex ::
  "int \<Rightarrow> Song list \<Rightarrow> bool \<Rightarrow> RepeatMode \<Rightarrow> Song list \<Rightarrow> draw list
     \<Rightarrow> error + (int option \<times> draw list)" where
  "getPreviousSongIndex currentIndex q shuf rep history rs =
     (if length q = 0 then Inr (None, rs)
      else if shuf then
        (let previousIndex =
           (if length history > 0
            then findIndex (\<lambda>s. song_id s = song_id (last history)) q else - 1)
         in if length history > 0 \<and> previousIndex \<noteq> - 1 then Inr (Some previousIndex, rs)
            else resample currentIndex (length q) rs)
      else if currentIndex > 0 then Inr (Some (currentIndex - 1), rs)
      else if rep = All then Inr (Some (int (length q) - 1), rs)
      else Inr (None, rs))"

section \<open>Persistence (utils/storage)\<close>

definition saveQueue :: "Song list \<Rightarrow> Storage \<Rightarrow> Storage" where
  "saveQueue q st = st\<lparr>QUEUE := Some q\<rparr>"

definition loadQueue :: "Storage \<Rightarrow> Song list" where
  "loadQueue st = (case QUEUE st of Some q \<Rightarrow> q | None \<Rightarrow> [])"

definition saveOriginalQueue :: "Song list \<Rightarrow> Storage \<Rightarrow> Storage" where
  "saveOriginalQueue q st = st\<lparr>ORIGINAL_QUEUE := Some q\<rparr>"

definition loadOriginalQueue :: "Storage \<Rightarrow> Song list" where
  "loadOriginalQueue st = (case ORIGINAL_QUEUE st of Some q \<Rightarrow> q | None \<Rightarrow> [])"

definition saveShuffledQueue :: "Song list \<Rightarrow> Storage \<Rightarrow> Storage" where
  "saveShuffledQueue q st = st\<lparr>SHUFFLED_QUEUE := Some q\<rparr>"

definition loadShuffledQueue :: "Storage \<Rightarrow> Song list" where
  "loadShuffledQueue st = (case SHUFFLED_QUEUE st of Some q \<Rightarrow> q | None \<Rightarrow> [])"

text \<open>
  \<^verbatim>\<open>savePlayerState(get())\<close>: the store's \<^verbatim>\<open>originalQueue\<close> and \<^verbatim>\<open>shuffledQueue\<close> are
  arrays, which are truthy also when empty, so both optional writes happen.
\<close>

definition savePlayerState :: "PlayerState \<Rightarrow> Storage \<Rightarrow> Storage" where
  "savePlayerState state st =
     (let st1 = saveQueue (queue state) st;
          st2 = (case currentSong state of
                   Some c \<Rightarrow> st1\<lparr>CURRENT_SONG := Some c\<rparr>
                 | None \<Rightarrow> st1\<lparr>CURRENT_SONG := None\<rparr>);
          st3 = st2\<lparr>SHUFFLE := Some (shuffle state)\<rparr>;
          st4 = st3\<lparr>REPEAT := Some (repeat state)\<rparr>;
          st5 = st4\<lparr>VOLUME := Some (volume state)\<rparr>;
          st6 = saveOriginalQueue (originalQueue state) st5
      in saveShuffledQueue (shuffledQueue state) st6)"

text \<open>
  The \<^verbatim>\<open>Partial<PlayerState>\<close> that \<^verbatim>\<open>loadPlayerState\<close> returns; \<open>None\<close> in
  \<open>l_shuffledQueue\<close> is \<^verbatim>\<open>undefined\<close>, in \<open>l_currentSong\<close> it is \<^verbatim>\<open>null\<close>.
\<close>

record Loaded =
  l_currentSong :: "Song option"
  l_queue :: "Song list"
  l_originalQueue :: "Song list"
  l_shuffledQueue :: "Song list option"
  l_shuffle :: bool
  l_repeat :: RepeatMode
  l_volume :: real

definition loadPlayerState :: "Storage \<Rightarrow> Loaded" where
  "loadPlayerState st =
     (let q = loadQueue st;
          oq = loadOriginalQueue st;
          sq = loadShuffledQueue st;
          cur = CURRENT_SONG st;
          shuf = (case SHUFFLE st of Some b \<Rightarrow> b | None \<Rightarrow> False);
          rep = (case REPEAT st of Some m \<Rightarrow> m | None \<Rightarrow> Off);
          vol = (case VOLUME st of Some v \<Rightarrow> v | None \<Rightarrow> 1)
      in \<lparr>l_currentSong = cur,
          l_queue = (if shuf \<and> length sq > 0 then sq else q),
          l_originalQueue = (if length oq > 0 then oq else q),
          l_shuffledQueue = (if length sq > 0 then Some sq else None),
          l_shuffle = shuf,
          l_repeat = rep,
          l_volume = vol\<rparr>)"

section \<open>The store's actions (store/playerStore.ts)\<close>

text \<open>
  \<^verbatim>\<open>set({...})\<close> merges the given fields into the state: a record update. The storage of
  the model does not fail, so the \<^verbatim>\<open>catch\<close> branch of \<^verbatim>\<open>loadPlayerState\<close> (which
  returns \<^verbatim>\<open>{}\<close>) is not taken and only \<^verbatim>\<open>shuffledQueue\<close> can be \<^verbatim>\<open>undefined\<close>.
\<close>

definition initializeFromStorage :: "World \<Rightarrow> World" where
  "initializeFromStorage w =
     (let state = loadPlayerState (storage w)
      in w\<lparr>store := (store w)\<lparr>
            currentSong := l_currentSong state,
            queue := l_queue state,
            originalQueue := l_originalQueue state,
            shuffledQueue := (case l_shuffledQueue state of Some q \<Rightarrow> q | None \<Rightarrow> []),
            shuffle := l_shuffle state,
            repeat := l_repeat state,
            volume := l_volume state\<rparr>\<rparr>)"

text \<open>The history bookkeeping at the head of \<^verbatim>\<open>playSong\<close>.\<close>

definition playSongHistory :: "Song \<Rightarrow> Song option \<Rightarrow> Song list \<Rightarrow> Song list" where
  "playSongHistory song cur h =
     (let h1 = (if length h > 50 then sliceLast 50 h else h)
      in if Some (song_id song) \<noteq> map_option song_id cur
         then (case cur of Some c \<Rightarrow> h1 @ [c] | None \<Rightarrow> h1)
         else h1)"

definition playSong :: "Song \<Rightarrow> World \<Rightarrow> World" where
  "playSong song w =
     (let s = store w;
          effectiveQueue = getEffectiveQueue s;
          songIndex = findIndex (\<lambda>x. song_id x = song_id song) effectiveQueue;
          h = playSongHistory song (currentSong s) (playHistory w)
      in if songIndex = - 1 then
           (let newQueue = song # effectiveQueue;
                newOriginalQueue =
                  (if shuffle s then originalQueue s else song # originalQueue s);
                s' = s\<lparr>currentSong := Some song, queue := newQueue,
                       originalQueue := newOriginalQueue, isPlaying := True,
                       currentTime := 0, duration := orZero (song_duration song),
                       isLoading := True\<rparr>
            in w\<lparr>store := s', playHistory := h,
                 storage := savePlayerState s'
                   (saveOriginalQueue newOriginalQueue (saveQueue newQueue (storage w)))\<rparr>)
         else
           (let s' = s\<lparr>currentSong := Some song, isPlaying := True, currentTime := 0,
                       duration := orZero (song_duration song), isLoading := True\<rparr>
            in w\<lparr>store := s', playHistory := h,
                 storage := savePlayerState s' (storage w)\<rparr>))"

definition pauseSong :: "World \<Rightarrow> World" where
  "pauseSong w =
     (let s' = (store w)\<lparr>isPlaying := False\<rparr>
      in w\<lparr>store := s', storage := savePlayerState s' (storage w)\<rparr>)"

definition resumeSong :: "World \<Rightarrow> World" where
  "resumeSong w =
     (case currentSong (store w) of
        None \<Rightarrow> w
      | Some c \<Rightarrow>
          (let s' = (store w)\<lparr>isPlaying := True\<rparr>
           in w\<lparr>store := s', storage := savePlayerState s' (storage w)\<rparr>))"

text \<open>The \<^verbatim>\<open>else\<close> branch of \<^verbatim>\<open>nextSong\<close>: no next song available.\<close>

definition stopPlayback :: "draw list \<Rightarrow> World \<Rightarrow> World" where
  "stopPlayback rs w =
     (let s' = (store w)\<lparr>isPlaying := False\<rparr>
      in w\<lparr>store := s', storage := savePlayerState s' (storage w), randoms := rs\<rparr>)"

definition nextSong :: "World \<Rightarrow> error + World" where
  "nextSong w =
     (let s = store w in
      case currentSong s of
        None \<Rightarrow> Inr w
      | Some cur \<Rightarrow>
          if length (queue s) = 0 then Inr w
          else
            (let effectiveQueue = getEffectiveQueue s;
                 currentIndex = findIndex (\<lambda>x. song_id x = song_id cur) effectiveQueue
             in if currentIndex = - 1 then Inr w
                else
                  (case getNextSongIndex currentIndex effectiveQueue (shuffle s) (repeat s)
                          (randoms w) of
                     Inl e \<Rightarrow> Inl e
                   | Inr (None, rs) \<Rightarrow> Inr (stopPlayback rs w)
                   | Inr (Some nextIndex, rs) \<Rightarrow>
                       if nextIndex < int (length effectiveQueue) then
                         (case elemAt effectiveQueue nextIndex of
                            None \<Rightarrow> Inl TypeError
                          | Some nxt \<Rightarrow>
                              (let h = playHistory w;
                                   h' = (if song_id cur \<noteq> song_id nxt
                                         then (if length h > 50 then sliceLast 50 h else h)
                                              @ [cur]
                                         else h);
                                   s' = s\<lparr>currentSong := Some nxt, isPlaying := True,
                                          currentTime := 0,
                                          duration := orZero (song_duration nxt),
                                          isLoading := True\<rparr>
                               in Inr (w\<lparr>store := s', playHistory := h',
                                        storage := savePlayerState s' (storage w),
                                        randoms := rs\<rparr>)))
                       else Inr (stopPlayback rs w))))"

definition previousSong :: "World \<Rightarrow> error + World" where
  "previousSong w =
     (let s = store w in
      case currentSong s of
        None \<Rightarrow> Inr w
      | Some cur \<Rightarrow>
          if length (queue s) = 0 then Inr w
          else
            (let effectiveQueue = getEffectiveQueue s;
                 currentIndex = findIndex (\<lambda>x. song_id x = song_id cur) effectiveQueue
             in if currentIndex = - 1 then Inr w
                else
                  (case getPreviousSongIndex currentIndex effectiveQueue (shuffle s)
                          (repeat s) (playHistory w) (randoms w) of
                     Inl e \<Rightarrow> Inl e
                   | Inr (None, rs) \<Rightarrow> Inr (w\<lparr>randoms := rs\<rparr>)
                   | Inr (Some previousIndex, rs) \<Rightarrow>
                       (case (if previousIndex \<ge> 0
                                 \<and> previousIndex < int (length effectiveQueue)
                              then elemAt effectiveQueue previousIndex else None) of
                          None \<Rightarrow> Inr (w\<lparr>randoms := rs\<rparr>)
                        | Some prev \<Rightarrow>
                            (let h = playHistory w;
                                 h' = (if shuffle s \<and> length h > 0
                                          \<and> song_id (last h) = song_id prev
                                       then sliceButLast h else h);
                                 s' = s\<lparr>currentSong := Some prev, isPlaying := True,
                                        currentTime := 0,
                                        duration := orZero (song_duration prev),
                                        isLoading := True\<rparr>
                             in Inr (w\<lparr>store := s', playHistory := h',
                                      storage := savePlayerState s' (storage w),
                                      randoms := rs\<rparr>))))))"

definition seekTo :: "real \<Rightarrow> World \<Rightarrow> World" where
  "seekTo time w =
     (let clampedTime = max 0 (min time (duration (store w)))
      in w\<lparr>store := (store w)\<lparr>currentTime := clampedTime\<rparr>\<rparr>)"

text \<open>
  The writes that end \<^verbatim>\<open>removeFromQueue\<close>, after the \<^verbatim>\<open>set\<close> that made the state \<open>s'\<close>.
\<close>

definition removePersist ::
  "PlayerState \<Rightarrow> bool \<Rightarrow> Song list \<Rightarrow> Song list \<Rightarrow> Song list \<Rightarrow> Storage \<Rightarrow> Storage" where
  "removePersist s' shuf newEffectiveQueue newOriginalQueue newShuffledQueue st =
     (let st1 = saveOriginalQueue newOriginalQueue (saveQueue newEffectiveQueue st);
          st2 = (if shuf then saveShuffledQueue newShuffledQueue st1 else st1)
      in savePlayerState s' st2)"

text \<open>
  The bounds check of \<^verbatim>\<open>removeFromQueue\<close> is against \<^verbatim>\<open>queue\<close>, the read is from the
  effective queue: where that one is shorter, \<^verbatim>\<open>removedSong\<close> is \<^verbatim>\<open>undefined\<close> and
  \<^verbatim>\<open>removedSong.id\<close> throws.
\<close>

definition removeFromQueue :: "int \<Rightarrow> World \<Rightarrow> error + World" where
  "removeFromQueue index w =
     (let s = store w in
      if index < 0 \<or> index \<ge> int (length (queue s)) then Inr w
      else
        (let effectiveQueue = getEffectiveQueue s in
         case elemAt effectiveQueue index of
           None \<Rightarrow> Inl TypeError
         | Some removedSong \<Rightarrow>
             (let newEffectiveQueue = removeAt index effectiveQueue;
                  songId = song_id removedSong;
                  newOriginalQueue = filter (\<lambda>x. song_id x \<noteq> songId) (originalQueue s);
                  newShuffledQueue = filter (\<lambda>x. song_id x \<noteq> songId) (shuffledQueue s);
                  sq' = (if shuffle s then newShuffledQueue else [])
              in if map_option song_id (currentSong s) = Some songId then
                   (case getNextSongIndex index newEffectiveQueue (shuffle s) (repeat s)
                           (randoms w) of
                      Inl e \<Rightarrow> Inl e
                    | Inr (nextIndex, rs) \<Rightarrow>
                        (case nextIndex of
                           Some i \<Rightarrow>
                             if i < int (length newEffectiveQueue) then
                               (case elemAt newEffectiveQueue i of
                                  None \<Rightarrow> Inl TypeError
                                | Some nxt \<Rightarrow>
                                    (let s' = s\<lparr>currentSong := Some nxt,
                                                queue := newEffectiveQueue,
                                                originalQueue := newOriginalQueue,
                                                shuffledQueue := sq',
                                                isPlaying := True, currentTime := 0,
                                                duration := orZero (song_duration nxt)\<rparr>
                                     in Inr (w\<lparr>store := s',
                                              storage := removePersist s' (shuffle s)
                                                newEffectiveQueue newOriginalQueue
                                                newShuffledQueue (storage w),
                                              randoms := rs\<rparr>)))
                             else
                               (let s' = s\<lparr>currentSong := None,
                                           queue := newEffectiveQueue,
                                           originalQueue := newOriginalQueue,
                                           shuffledQueue := sq',
                                           isPlaying := False, currentTime := 0,
                                           duration := 0\<rparr>
                                in Inr (w\<lparr>store := s',
                                         storage := removePersist s' (shuffle s)
                                           newEffectiveQueue newOriginalQueue
                                           newShuffledQueue (storage w),
                                         randoms := rs\<rparr>))
                         | None \<Rightarrow>
                             (let s' = s\<lparr>currentSong := None,
                                         queue := newEffectiveQueue,
                                         originalQueue := newOriginalQueue,
                                         shuffledQueue := sq',
                                         isPlaying := False, currentTime := 0,
                                         duration := 0\<rparr>
                              in Inr (w\<lparr>store := s',
                                       storage := removePersist s' (shuffle s)
                                         newEffectiveQueue newOriginalQueue
                                         newShuffledQueue (storage w),
                                       randoms := rs\<rparr>))))
                 else
                   (let s' = s\<lparr>queue := newEffectiveQueue,
                               originalQueue := newOriginalQueue,
                               shuffledQueue := sq'\<rparr>
                    in Inr (w\<lparr>store := s',
                             storage := removePersist s' (shuffle s) newEffectiveQueue
                               newOriginalQueue newShuffledQueue (storage w)\<rparr>)))))"

text \<open>
  \<^verbatim>\<open>reorderQueue\<close>. The bounds are checked against \<^verbatim>\<open>queue\<close>; \<^verbatim>\<open>effectiveQueue[from]\<close>
  is \<^verbatim>\<open>undefined\<close> where the effective queue is shorter. Then the callbacks of
  \<^verbatim>\<open>originalQueue.findIndex\<close> throw on \<^verbatim>\<open>effectiveQueue[from].id\<close>, unless
  \<^verbatim>\<open>originalQueue\<close> is empty and they never run. In that last case shuffle is on (lemma
  \<open>reorderQueue_undefined_shuffle\<close> below), so \<^verbatim>\<open>queue\<close> becomes \<^verbatim>\<open>shuffledQueue\<close>, and
  the array with the \<^verbatim>\<open>undefined\<close> entry only reaches \<^verbatim>\<open>saveQueue\<close>, whose slot
  \<^verbatim>\<open>savePlayerState\<close> rewrites in the same call.
\<close>

definition reorderQueue :: "int \<Rightarrow> int \<Rightarrow> World \<Rightarrow> error + World" where
  "reorderQueue from to w =
     (let s = store w in
      if from < 0 \<or> from \<ge> int (length (queue s)) \<or> to < 0 \<or> to \<ge> int (length (queue s))
      then Inr w
      else
        (let effectiveQueue = getEffectiveQueue s in
         case elemAt effectiveQueue from of
           None \<Rightarrow>
             if originalQueue s = [] then
               (let s' = s\<lparr>queue := shuffledQueue s, originalQueue := []\<rparr>
                in Inr (w\<lparr>store := s',
                         storage := savePlayerState s'
                           (saveOriginalQueue [] (storage w))\<rparr>))
             else Inl TypeError
         | Some removed \<Rightarrow>
             (let newEffectiveQueue = insertAt to removed (removeAt from effectiveQueue);
                  originalFromIndex =
                    findIndex (\<lambda>x. song_id x = song_id removed) (originalQueue s);
                  originalToIndex =
                    findIndex (\<lambda>x. Some (song_id x)
                                      = map_option song_id (elemAt effectiveQueue to)
                                    \<or> song_id x = song_id removed) (originalQueue s);
                  newOriginalQueue =
                    (if originalFromIndex \<noteq> - 1 \<and> originalToIndex \<noteq> - 1 then
                       (case elemAt (originalQueue s) originalFromIndex of
                          Some removedOriginal \<Rightarrow>
                            insertAt originalToIndex removedOriginal
                              (removeAt originalFromIndex (originalQueue s))
                        | None \<Rightarrow> originalQueue s)
                     else originalQueue s);
                  s' = s\<lparr>queue := (if shuffle s then shuffledQueue s else newEffectiveQueue),
                         originalQueue := newOriginalQueue\<rparr>
              in Inr (w\<lparr>store := s',
                       storage := savePlayerState s'
                         (saveOriginalQueue newOriginalQueue
                            (saveQueue newEffectiveQueue (storage w)))\<rparr>))))"

definition clearQueue :: "World \<Rightarrow> World" where
  "clearQueue w =
     (let s' = (store w)\<lparr>queue := [], originalQueue := [], shuffledQueue := [],
                         currentSong := None, isPlaying := False, currentTime := 0,
                         duration := 0\<rparr>
      in w\<lparr>store := s',
           storage := savePlayerState s'
             (saveShuffledQueue [] (saveOriginalQueue [] (saveQueue [] (storage w))))\<rparr>)"

definition setRepeat :: "RepeatMode \<Rightarrow> World \<Rightarrow> World" where
  "setRepeat mode w =
     (let s' = (store w)\<lparr>repeat := mode\<rparr>
      in w\<lparr>store := s', storage := savePlayerState s' (storage w)\<rparr>)"

definition setCurrentTime :: "real \<Rightarrow> World \<Rightarrow> World" where
  "setCurrentTime time w =
     (let clampedTime = max 0 (min time (duration (store w)))
      in w\<lparr>store := (store w)\<lparr>currentTime := clampedTime\<rparr>\<rparr>)"

definition setDuration :: "real \<Rightarrow> World \<Rightarrow> World" where
  "setDuration d w = w\<lparr>store := (store w)\<lparr>duration := max 0 d\<rparr>\<rparr>"

definition setIsPlaying :: "bool \<Rightarrow> World \<Rightarrow> World" where
  "setIsPlaying playing w =
     (let s' = (store w)\<lparr>isPlaying := playing\<rparr>
      in w\<lparr>store := s', storage := savePlayerState s' (storage w)\<rparr>)"

definition setVolume :: "real \<Rightarrow> World \<Rightarrow> World" where
  "setVolume v w =
     (let clampedVolume = max 0 (min 1 v);
          s' = (store w)\<lparr>volume := clampedVolume\<rparr>
      in w\<lparr>store := s', storage := savePlayerState s' (storage w)\<rparr>)"

definition setCurrentSong :: "Song option \<Rightarrow> World \<Rightarrow> World" where
  "setCurrentSong song w =
     (let s' = (store w)\<lparr>currentSong := song\<rparr>
      in w\<lparr>store := s', storage := savePlayerState s' (storage w)\<rparr>)"

definition setIsLoading :: "bool \<Rightarrow> World \<Rightarrow> World" where
  "setIsLoading loading w = w\<lparr>store := (store w)\<lparr>isLoading := loading\<rparr>\<rparr>"

section \<open>Sequences of song transitions\<close>

datatype transition = PlaySong Song | NextSong | PreviousSong

fun transit :: "transition \<Rightarrow> World \<Rightarrow> error + World" where
  "transit (PlaySong song) w = Inr (playSong song w)"
| "transit NextSong w = nextSong w"
| "transit PreviousSong w = previousSong w"

fun transits :: "transition list \<Rightarrow> World \<Rightarrow> error + World" where
  "transits [] w = Inr w"
| "transits (t # ts) w = (case transit t w of Inl e \<Rightarrow> Inl e | Inr w' \<Rightarrow> transits ts w')"

section \<open>Concrete songs and states\<close>

definition songA :: Song where
  "songA = \<lparr>song_id = ''a'', song_name = ''A'', song_duration = 180\<rparr>"

definition songB :: Song where
  "songB = \<lparr>song_id = ''b'', song_name = ''B'', song_duration = 200\<rparr>"

definition songC :: Song where
  "songC = \<lparr>song_id = ''c'', song_name = ''C'', song_duration = 150\<rparr>"

definition emptyStorage :: Storage where
  "emptyStorage = \<lparr>QUEUE = None, CURRENT_SONG = None, REPEAT = None, SHUFFLE = None,
     VOLUME = None, SHUFFLED_QUEUE = None, ORIGINAL_QUEUE = None\<rparr>"

text \<open>The state the store is created with when the storage is empty.\<close>

definition defaultState :: PlayerState where
  "defaultState = \<lparr>currentSong = None, queue = [], originalQueue = [], shuffledQueue = [],
     isPlaying = False, currentTime = 0, duration = 0, isLoading = False, shuffle = False,
     repeat = Off, volume = 1\<rparr>"

text \<open>
  The draws \<open>x = 0.25\<close> and \<open>x = 0.75\<close>: both are doubles, and their products with
  the length of an array are exact in double arithmetic, so the floor is the integer
  quotient.
\<close>

definition drawQuarter :: draw where
  "drawQuarter n = int n div 4"

definition drawThreeQuarters :: draw where
  "drawThreeQuarters n = (3 * int n) div 4"

definition freshWorld :: World where
  "freshWorld = \<lparr>store = defaultState, playHistory = [], storage = emptyStorage,
     randoms = []\<rparr>"

text \<open>Shuffle is on over the one-song queue \<open>[songA]\<close>.\<close>

definition shuffledWorld :: World where
  "shuffledWorld = freshWorld\<lparr>store := defaultState\<lparr>queue := [songA],
     originalQueue := [songA], shuffledQueue := [songA], shuffle := True\<rparr>\<rparr>"

text \<open>\<^verbatim>\<open>playSong(songA); playSong(songB)\<close>, \<open>n\<close> times over.\<close>

definition alternate :: "nat \<Rightarrow> transition list" where
  "alternate n = concat (replicate n [PlaySong songA, PlaySong songB])"

text \<open>The queue of the scenario: A (180 s), B (200 s), C (150 s), A current.\<close>

definition scenarioWorld :: World where
  "scenarioWorld = freshWorld\<lparr>store := defaultState\<lparr>queue := [songA, songB, songC],
     originalQueue := [songA, songB, songC], currentSong := Some songA\<rparr>\<rparr>"

text \<open>Shuffle is on, no shuffled queue exists, and \<open>originalQueue\<close> is not empty.\<close>

definition shuffleNoOrderState :: PlayerState where
  "shuffleNoOrderState = defaultState\<lparr>queue := [songB], originalQueue := [songA],
     shuffle := True\<rparr>"

text \<open>
  The store after \<^verbatim>\<open>playSong(songB)\<close> in \<open>shuffledWorld\<close> (lemma \<open>driftedWorld_reached\<close>).
\<close>

definition driftedWorld :: World where
  "driftedWorld = freshWorld\<lparr>store := defaultState\<lparr>currentSong := Some songB,
     queue := [songB, songA], originalQueue := [songA], shuffledQueue := [songA],
     isPlaying := True, duration := 200, isLoading := True, shuffle := True\<rparr>\<rparr>"

text \<open>A current song over an empty queue, as after \<^verbatim>\<open>setCurrentSong(songA)\<close> at start.\<close>

definition orphanWorld :: World where
  "orphanWorld = freshWorld\<lparr>store := defaultState\<lparr>currentSong := Some songA\<rparr>\<rparr>"

text \<open>
  \<^verbatim>\<open>savePlayerState(state)\<close> followed, with no other write to the storage in between,
  by \<^verbatim>\<open>initializeFromStorage()\<close>, which reads the storage through
  \<^verbatim>\<open>loadPlayerState\<close>. The store that loads is that of \<open>w\<close>: any store, as after a
  restart of the process, not the state that was saved.
\<close>

definition saveThenInitialize :: "PlayerState \<Rightarrow> World \<Rightarrow> World" where
  "saveThenInitialize state w =
     initializeFromStorage (w\<lparr>storage := savePlayerState state (storage w)\<rparr>)"

text \<open>A state with no setting at its default, and a store that shares no field with it.\<close>

definition tunedState :: PlayerState where
  "tunedState = \<lparr>currentSong = Some songA, queue = [songC, songA],
     originalQueue = [songA, songC], shuffledQueue = [songC, songA], isPlaying = True,
     currentTime = 12, duration = 180, isLoading = False, shuffle = True, repeat = All,
     volume = 1/2\<rparr>"

text \<open>
  \<open>queue\<close> and \<open>originalQueue\<close> disagree with shuffle off: \<open>originalQueue\<close> is
  \<open>[songC, songA, songB]\<close> under the queue of the scenario (lemma
  \<open>unsyncedWorld_reached\<close>).
\<close>

definition unsyncedWorld :: World where
  "unsyncedWorld = freshWorld\<lparr>store := defaultState\<lparr>currentSong := Some songA,
     queue := [songA, songB, songC], originalQueue := [songC, songA, songB],
     isPlaying := True, duration := 180, isLoading := True\<rparr>\<rparr>"

text \<open>What is playing: the current song and the play flag.\<close>

definition nowPlaying :: "World \<Rightarrow> Song option \<times> bool" where
  "nowPlaying w = (currentSong (store w), isPlaying (store w))"

section \<open>Helper facts\<close>

lemmas load_defs = loadPlayerState_def loadQueue_def loadOriginalQueue_def
  loadShuffledQueue_def

lemmas data_defs = songA_def songB_def songC_def emptyStorage_def defaultState_def
  freshWorld_def shuffledWorld_def scenarioWorld_def

text \<open>\<open>savePlayerState\<close> writes all seven slots, whatever the storage held.\<close>

lemma savePlayerState_slots:
  "savePlayerState state st =
     st\<lparr>QUEUE := Some (queue state), CURRENT_SONG := currentSong state,
        SHUFFLE := Some (shuffle state), REPEAT := Some (repeat state),
        VOLUME := Some (volume state), ORIGINAL_QUEUE := Some (originalQueue state),
        SHUFFLED_QUEUE := Some (shuffledQueue state)\<rparr>"
  by (cases "currentSong state")
    (simp_all add: savePlayerState_def saveQueue_def saveOriginalQueue_def
      saveShuffledQueue_def)

lemma resample_differs:
  "resample ci n rs = Inr (Some i, rs') \<Longrightarrow> 1 < n \<Longrightarrow> i \<noteq> ci"
  by (induction rs) (auto split: if_splits)

lemma resample_returns:
  "\<exists>r\<in>set rs. randomIndex r n \<noteq> ci \<Longrightarrow> \<exists>i rs'. resample ci n rs = Inr (Some i, rs')"
  by (induction rs) auto

text \<open>
  The branch of \<open>reorderQueue\<close> that meets \<^verbatim>\<open>undefined\<close> without throwing is taken under
  shuffle only.
\<close>

lemma reorderQueue_undefined_shuffle:
  assumes "0 \<le> fromIndex" and "fromIndex < int (length (queue s))"
    and "elemAt (getEffectiveQueue s) fromIndex = None" and "originalQueue s = []"
  shows "shuffle s"
  using assms by (auto simp: getEffectiveQueue_def elemAt_def split: if_splits)

lemma driftedWorld_reached: "store (playSong songB shuffledWorld) = store driftedWorld"
  by (simp add: playSong_def data_defs driftedWorld_def getEffectiveQueue_def
      findIndex_def Let_def orZero_def)

text \<open>
  After \<^verbatim>\<open>playSong\<close> of a song missing from the shuffled queue, the current song is not
  in the effective queue, and \<open>nextSong\<close> returns without doing anything.
\<close>

lemma nextSong_after_drift: "nextSong driftedWorld = Inr driftedWorld"
  by (simp add: nextSong_def data_defs driftedWorld_def getEffectiveQueue_def
      findIndex_def Let_def)

text \<open>
  Under repeat-all at the last position the shuffled branch draws once and returns the
  draw, also when it is \<open>currentIndex\<close>.
\<close>

lemma getNextSongIndex_wrap_draws_once:
  "getNextSongIndex 1 [songA, songB] True All [drawThreeQuarters] = Inr (Some 1, [])"
  by (simp add: getNextSongIndex_def randomIndex_def drawThreeQuarters_def)

text \<open>
  \<open>reorderQueue\<close> with shuffle off, moving the first song to the end: \<open>queue\<close> is
  reordered, \<open>originalQueue\<close> is not, because the target position is looked up by "the
  id at \<open>to\<close> or the id at \<open>from\<close>" and the moved song itself comes first.
\<close>

lemma reorderQueue_forward_move:
  "map_sum id (\<lambda>w. (queue (store w), originalQueue (store w)))
     (reorderQueue 0 2 scenarioWorld)
   = Inr ([songB, songC, songA], [songA, songB, songC])"
  by (simp add: reorderQueue_def data_defs getEffectiveQueue_def elemAt_def findIndex_def
      insertAt_def removeAt_def Let_def)

text \<open>
  From \<open>queue = originalQueue = [songC, songA, songB]\<close> with shuffle off,
  \<^verbatim>\<open>reorderQueue(0, 2)\<close> and then \<^verbatim>\<open>playSong(songA)\<close> give the store of
  \<open>unsyncedWorld\<close>.
\<close>

lemma unsyncedWorld_reached:
  "map_sum id (\<lambda>w. store (playSong songA w))
     (reorderQueue 0 2 (freshWorld\<lparr>store := defaultState\<lparr>queue := [songC, songA, songB],
        originalQueue := [songC, songA, songB]\<rparr>\<rparr>))
   = Inr (store unsyncedWorld)"
  by (simp add: reorderQueue_def playSong_def data_defs unsyncedWorld_def
      getEffectiveQueue_def elemAt_def findIndex_def insertAt_def removeAt_def
      savePlayerState_slots saveQueue_def saveOriginalQueue_def orZero_def Let_def)

subsection \<open>The play history holds at most 51 songs\<close>

lemma playSong_history_bound: "length (playHistory (playSong song w)) \<le> 51"
  by (auto simp: playSong_def playSongHistory_def sliceLast_def Let_def split: option.splits)

lemma nextSong_history_bound:
  "nextSong w = Inr w' \<Longrightarrow> length (playHistory w) \<le> 51 \<Longrightarrow> length (playHistory w') \<le> 51"
  by (auto simp: nextSong_def stopPlayback_def sliceLast_def Let_def
      split: option.splits sum.splits if_splits prod.splits)

lemma previousSong_history_bound:
  "previousSong w = Inr w' \<Longrightarrow> length (playHistory w) \<le> 51 \<Longrightarrow> length (playHistory w') \<le> 51"
  by (auto simp: previousSong_def sliceButLast_def Let_def
      split: option.splits sum.splits if_splits prod.splits)

lemma transits_history_bound:
  "transits ts w = Inr w' \<Longrightarrow> length (playHistory w) \<le> 51 \<Longrightarrow> length (playHistory w') \<le> 51"
proof (induction ts arbitrary: w)
  case Nil
  then show ?case by simp
next
  case (Cons t ts)
  then obtain w1 where step: "transit t w = Inr w1" and rest: "transits ts w1 = Inr w'"
    by (auto split: sum.splits)
  have "length (playHistory w1) \<le> 51"
  proof (cases t)
    case (PlaySong song)
    with step show ?thesis using playSong_history_bound by auto
  next
    case NextSong
    with step Cons.prems(2) show ?thesis using nextSong_history_bound by auto
  next
    case PreviousSong
    with step Cons.prems(2) show ?thesis using previousSong_history_bound by auto
  qed
  with Cons.IH rest show ?case by blast
qed

section \<open>Claims\<close>

text \<open>
  C1, at the input the claim singles out: shuffle is on over \<open>[songA]\<close> and \<open>songB\<close> is
  not in the effective queue. \<open>playSong songB\<close> puts \<open>songB\<close> in front of \<open>queue\<close> and
  leaves \<open>shuffledQueue\<close> as it was, so afterwards \<open>queue\<close> is not the shuffled queue
  that shuffle makes authoritative.
\<close>

theorem playSong_absent_under_shuffle:
  "shuffle (store (playSong songB shuffledWorld))
   \<and> shuffledQueue (store (playSong songB shuffledWorld)) = [songA]
   \<and> queue (store (playSong songB shuffledWorld)) = [songB, songA]
   \<and> queue (store (playSong songB shuffledWorld))
       \<noteq> shuffledQueue (store (playSong songB shuffledWorld))"
  by (simp add: playSong_def data_defs getEffectiveQueue_def findIndex_def Let_def)

text \<open>
  C2, as the code has it: \<open>getEffectiveQueue\<close> returns \<open>shuffledQueue\<close> when shuffle is
  on and \<open>shuffledQueue\<close> is non-empty, \<open>originalQueue\<close> when shuffle is off and
  \<open>originalQueue\<close> is non-empty, and \<open>queue\<close> in every other state; so with shuffle on
  and an empty \<open>shuffledQueue\<close> it returns \<open>queue\<close>, whatever \<open>originalQueue\<close> holds.
\<close>

theorem getEffectiveQueue_cases:
  "(shuffle s \<and> shuffledQueue s \<noteq> [] \<longrightarrow> getEffectiveQueue s = shuffledQueue s)
   \<and> (\<not> shuffle s \<and> originalQueue s \<noteq> [] \<longrightarrow> getEffectiveQueue s = originalQueue s)
   \<and> (shuffle s \<and> shuffledQueue s = [] \<longrightarrow> getEffectiveQueue s = queue s)
   \<and> (\<not> shuffle s \<and> originalQueue s = [] \<longrightarrow> getEffectiveQueue s = queue s)"
  by (simp add: getEffectiveQueue_def)

theorem getEffectiveQueue_cases_witness:
  "getEffectiveQueue (store shuffledWorld) = [songA]
   \<and> getEffectiveQueue (store scenarioWorld) = [songA, songB, songC]
   \<and> getEffectiveQueue shuffleNoOrderState = [songB]
   \<and> getEffectiveQueue (defaultState\<lparr>queue := [songC]\<rparr>) = [songC]"
  using getEffectiveQueue_cases [of "store shuffledWorld"]
    getEffectiveQueue_cases [of "store scenarioWorld"]
    getEffectiveQueue_cases [of shuffleNoOrderState]
    getEffectiveQueue_cases [of "defaultState\<lparr>queue := [songC]\<rparr>"]
  by (simp add: data_defs shuffleNoOrderState_def)

text \<open>
  C2 fails where the claim points: shuffle is on, \<open>shuffledQueue\<close> is empty and
  \<open>originalQueue\<close> is \<open>[songA]\<close>, yet \<open>getEffectiveQueue\<close> returns \<open>queue\<close>, here
  \<open>[songB]\<close>, because its second test asks for shuffle to be off.
\<close>

theorem getEffectiveQueue_counterexample:
  "shuffle shuffleNoOrderState \<and> shuffledQueue shuffleNoOrderState = []
   \<and> originalQueue shuffleNoOrderState = [songA]
   \<and> getEffectiveQueue shuffleNoOrderState = [songB]
   \<and> getEffectiveQueue shuffleNoOrderState \<noteq> originalQueue shuffleNoOrderState"
  by (simp add: getEffectiveQueue_def data_defs shuffleNoOrderState_def)

text \<open>
  C3, at a failing input: from an empty history, 52 calls of \<open>playSong\<close> that alternate
  between two songs leave 51 entries in the play history. The trim to 50 runs before
  the push, so a history of 50 is not trimmed and grows to 51.
\<close>

theorem playHistory_reaches_51:
  "map_sum id (\<lambda>w. length (playHistory w)) (transits (alternate 26) freshWorld) = Inr 51"
  by code_simp

text \<open>
  C4 fails under repeat-one, where \<open>getNextSongIndex\<close> returns \<open>currentIndex\<close> before it
  looks at shuffle.
\<close>

theorem getNextSongIndex_one_counterexample:
  "getNextSongIndex 0 [songA, songB] True One [] = Inr (Some 0, [])"
  by (simp add: getNextSongIndex_def)

text \<open>
  C4, amended: for a queue of more than one song, an in-bounds \<open>currentIndex\<close>, shuffle
  on, a repeat mode other than \<open>One\<close> and, under \<open>All\<close>, a \<open>currentIndex\<close> that is not the
  last position: whatever the random draws, an index that \<open>getNextSongIndex\<close> returns
  differs from \<open>currentIndex\<close>; and it does return once one of the draws maps to an index
  other than \<open>currentIndex\<close>.
\<close>

theorem getNextSongIndex_shuffle_differs:
  assumes "1 < length q" and "0 \<le> ci" and "ci < int (length q)"
    and "rep \<noteq> One" and "rep = All \<longrightarrow> ci \<noteq> int (length q) - 1"
  shows "(\<forall>i rs'. getNextSongIndex ci q True rep rs = Inr (Some i, rs') \<longrightarrow> i \<noteq> ci)
    \<and> ((\<exists>r\<in>set rs. randomIndex r (length q) \<noteq> ci)
        \<longrightarrow> (\<exists>res rs'. getNextSongIndex ci q True rep rs = Inr (res, rs')))"
proof (cases "ci < int (length q) - 1")
  case True
  from assms(1) have "q \<noteq> []" by auto
  with True assms(4) have eq: "getNextSongIndex ci q True rep rs = resample ci (length q) rs"
    by (simp add: getNextSongIndex_def)
  show ?thesis
    unfolding eq using resample_differs [OF _ assms(1)] resample_returns by blast
next
  case False
  with assms have "rep = Off" by (cases rep) auto
  moreover from assms(1) have "q \<noteq> []" by auto
  ultimately have "getNextSongIndex ci q True rep rs = Inr (None, rs)"
    using False by (simp add: getNextSongIndex_def)
  then show ?thesis by simp
qed

theorem getNextSongIndex_shuffle_differs_witness:
  "1 < length [songA, songB]
   \<and> getNextSongIndex 0 [songA, songB] True Off [drawQuarter, drawThreeQuarters]
       = Inr (Some 1, [])
   \<and> (1::int) \<noteq> 0"
  using getNextSongIndex_shuffle_differs
    [of "[songA, songB]" 0 Off "[drawQuarter, drawThreeQuarters]"]
  by (simp add: getNextSongIndex_def randomIndex_def drawQuarter_def
      drawThreeQuarters_def)

text \<open>
  C5 fails where \<open>originalQueue\<close> is in another order than \<open>queue\<close>: \<open>nextSong\<close> walks
  the effective queue, which with shuffle off is \<open>originalQueue\<close>. In \<open>unsyncedWorld\<close>
  the queue is \<open>[songA, songB, songC]\<close>, shuffle and repeat are off and \<open>songA\<close> is
  current, yet the second \<open>nextSong\<close> finds \<open>songB\<close> at the end of
  \<open>originalQueue = [songC, songA, songB]\<close> and stops there: \<open>songC\<close> is never played.
\<close>

theorem nextSong_unsynced_counterexample:
  "queue (store unsyncedWorld) = [songA, songB, songC]
   \<and> \<not> shuffle (store unsyncedWorld) \<and> repeat (store unsyncedWorld) = Off
   \<and> currentSong (store unsyncedWorld) = Some songA
   \<and> map_sum id nowPlaying (transits [NextSong, NextSong] unsyncedWorld)
       = Inr (Some songB, False)"
  by (simp add: nextSong_def stopPlayback_def nowPlaying_def unsyncedWorld_def data_defs
      getEffectiveQueue_def getNextSongIndex_def elemAt_def findIndex_def Let_def)

text \<open>
  C5, amended: with queue \<open>[a, b, c]\<close> of durations 180, 200 and 150 seconds,
  \<open>originalQueue\<close> equal to \<open>queue\<close> or empty, shuffle off, repeat off and \<open>a\<close> current,
  the first \<open>nextSong\<close> makes \<open>b\<close> current with \<open>currentTime = 0\<close> and
  \<open>duration = 200\<close>, the second makes \<open>c\<close> current, and the third finds no next song:
  it sets \<open>isPlaying\<close> to false and leaves \<open>c\<close> current.
\<close>

theorem nextSong_scenario:
  assumes ids: "song_id a \<noteq> song_id b" "song_id a \<noteq> song_id c" "song_id b \<noteq> song_id c"
    and durs: "song_duration a = 180" "song_duration b = 200" "song_duration c = 150"
    and q: "queue (store w) = [a, b, c]"
    and oq: "originalQueue (store w) = [a, b, c] \<or> originalQueue (store w) = []"
    and modes: "\<not> shuffle (store w)" "repeat (store w) = Off"
    and cur: "currentSong (store w) = Some a"
  shows "\<exists>w1 w2 w3.
      nextSong w = Inr w1 \<and> currentSong (store w1) = Some b
        \<and> currentTime (store w1) = 0 \<and> duration (store w1) = 200
    \<and> nextSong w1 = Inr w2 \<and> currentSong (store w2) = Some c
    \<and> nextSong w2 = Inr w3 \<and> \<not> isPlaying (store w3) \<and> currentSong (store w3) = Some c"
proof -
  have eff: "getEffectiveQueue (store w) = [a, b, c]"
    using q oq modes by (auto simp: getEffectiveQueue_def)
  define s1 where "s1 = (store w)\<lparr>currentSong := Some b, isPlaying := True, currentTime := 0,
    duration := orZero (song_duration b), isLoading := True\<rparr>"
  define w1 where "w1 = w\<lparr>store := s1, playHistory :=
    (if length (playHistory w) > 50 then sliceLast 50 (playHistory w) else playHistory w) @ [a],
    storage := savePlayerState s1 (storage w), randoms := randoms w\<rparr>"
  have n1: "nextSong w = Inr w1"
    using ids cur q modes eff
    by (simp add: nextSong_def Let_def findIndex_def getNextSongIndex_def elemAt_def
        w1_def s1_def)
  define s2 where "s2 = (store w1)\<lparr>currentSong := Some c, isPlaying := True, currentTime := 0,
    duration := orZero (song_duration c), isLoading := True\<rparr>"
  define w2 where "w2 = w1\<lparr>store := s2, playHistory :=
    (if length (playHistory w1) > 50 then sliceLast 50 (playHistory w1) else playHistory w1) @ [b],
    storage := savePlayerState s2 (storage w1), randoms := randoms w1\<rparr>"
  have q1: "queue (store w1) = [a, b, c]" "\<not> shuffle (store w1)" "repeat (store w1) = Off"
    "currentSong (store w1) = Some b"
    using q modes by (simp_all add: w1_def s1_def)
  have "originalQueue (store w1) = originalQueue (store w)"
    by (simp add: w1_def s1_def)
  with oq q1 have eff1: "getEffectiveQueue (store w1) = [a, b, c]"
    by (auto simp: getEffectiveQueue_def)
  have n2: "nextSong w1 = Inr w2"
    using ids q1 eff1
    by (simp add: nextSong_def Let_def findIndex_def getNextSongIndex_def elemAt_def
        w2_def s2_def)
  have q2: "queue (store w2) = [a, b, c]" "\<not> shuffle (store w2)" "repeat (store w2) = Off"
    "currentSong (store w2) = Some c"
    using q1 by (simp_all add: w2_def s2_def)
  have "originalQueue (store w2) = originalQueue (store w)"
    by (simp add: w2_def s2_def w1_def s1_def)
  with oq q2 have eff2: "getEffectiveQueue (store w2) = [a, b, c]"
    by (auto simp: getEffectiveQueue_def)
  have n3: "nextSong w2 = Inr (stopPlayback (randoms w2) w2)"
    using ids q2 eff2
    by (simp add: nextSong_def Let_def findIndex_def getNextSongIndex_def)
  have "currentSong (store w1) = Some b \<and> currentTime (store w1) = 0
      \<and> duration (store w1) = 200"
    using durs by (simp add: w1_def s1_def orZero_def)
  moreover have "\<not> isPlaying (store (stopPlayback (randoms w2) w2))
      \<and> currentSong (store (stopPlayback (randoms w2) w2)) = Some c"
    using q2 by (simp add: stopPlayback_def Let_def)
  ultimately show ?thesis using n1 n2 n3 q2 by blast
qed

theorem nextSong_scenario_witness:
  "queue (store scenarioWorld) = [songA, songB, songC]
   \<and> currentSong (store scenarioWorld) = Some songA
   \<and> (\<exists>w1 w2 w3.
      nextSong scenarioWorld = Inr w1 \<and> currentSong (store w1) = Some songB
        \<and> currentTime (store w1) = 0 \<and> duration (store w1) = 200
    \<and> nextSong w1 = Inr w2 \<and> currentSong (store w2) = Some songC
    \<and> nextSong w2 = Inr w3 \<and> \<not> isPlaying (store w3)
    \<and> currentSong (store w3) = Some songC)"
  using nextSong_scenario [of songA songB songC scenarioWorld]
  by (simp add: data_defs)

text \<open>
  C6 fails for the queue: the state of \<open>driftedWorld\<close> has shuffle on, \<open>shuffledQueue\<close>
  \<open>[songA]\<close> and \<open>queue\<close> \<open>[songB, songA]\<close>; saved and then loaded into a fresh store,
  its \<open>queue\<close> comes back as \<open>[songA]\<close>, since \<open>loadPlayerState\<close> takes the queue from
  the shuffled queue while shuffle is on.
\<close>

theorem roundtrip_queue_counterexample:
  "queue (store (saveThenInitialize (store driftedWorld) freshWorld)) = [songA]
   \<and> queue (store driftedWorld) = [songB, songA]"
  by (simp add: saveThenInitialize_def initializeFromStorage_def savePlayerState_slots
      load_defs data_defs driftedWorld_def Let_def)

text \<open>
  C6, amended: after \<open>savePlayerState\<close> of a state, \<open>initializeFromStorage\<close> in any
  store, over whatever the storage held before the save, loads the saved state's
  \<open>shuffle\<close>, \<open>repeat\<close> and \<open>volume\<close>, and loads its \<open>queue\<close> when in the saved state
  shuffle is off, or \<open>shuffledQueue\<close> is empty, or \<open>queue\<close> equals \<open>shuffledQueue\<close>.
\<close>

theorem roundtrip_settings:
  "shuffle (store (saveThenInitialize s w)) = shuffle s
   \<and> repeat (store (saveThenInitialize s w)) = repeat s
   \<and> volume (store (saveThenInitialize s w)) = volume s
   \<and> (\<not> shuffle s \<or> shuffledQueue s = [] \<or> queue s = shuffledQueue s
      \<longrightarrow> queue (store (saveThenInitialize s w)) = queue s)"
  by (auto simp add: saveThenInitialize_def initializeFromStorage_def savePlayerState_slots
      load_defs Let_def)

theorem roundtrip_settings_witness:
  "shuffle tunedState \<and> queue tunedState = shuffledQueue tunedState
   \<and> queue (store freshWorld) = [] \<and> \<not> shuffle (store freshWorld)
   \<and> repeat (store freshWorld) = Off \<and> volume (store freshWorld) = 1
   \<and> queue (store (saveThenInitialize tunedState freshWorld)) = [songC, songA]
   \<and> shuffle (store (saveThenInitialize tunedState freshWorld))
   \<and> repeat (store (saveThenInitialize tunedState freshWorld)) = All
   \<and> volume (store (saveThenInitialize tunedState freshWorld)) = 1/2
   \<and> \<not> shuffle (store scenarioWorld)
   \<and> queue (store (saveThenInitialize (store scenarioWorld) shuffledWorld))
       = [songA, songB, songC]"
  using roundtrip_settings [of tunedState freshWorld]
    roundtrip_settings [of "store scenarioWorld" shuffledWorld]
  by (simp add: data_defs tunedState_def)

text \<open>
  C7 fails for \<open>setCurrentTime\<close>: on an empty storage it leaves the storage empty, where
  a call of \<open>savePlayerState\<close> would have filled the slots.
\<close>

theorem setCurrentTime_no_write_counterexample:
  "storage (setCurrentTime 5 freshWorld) = emptyStorage
   \<and> savePlayerState (store (setCurrentTime 5 freshWorld)) (storage freshWorld)
       \<noteq> emptyStorage"
  by (simp add: setCurrentTime_def freshWorld_def emptyStorage_def savePlayerState_slots
      Let_def)

text \<open>
  C7, amended: \<open>setRepeat\<close>, \<open>setVolume\<close> (clamped to [0, 1]), \<open>setIsPlaying\<close> and
  \<open>setCurrentSong\<close> mutate their field and then write the mutated state with
  \<open>savePlayerState\<close>, so that the repeat, volume and current-song slots hold the new
  values; \<open>setCurrentTime\<close>, like \<open>setDuration\<close> and \<open>setIsLoading\<close>, leaves the storage
  as it is.
\<close>

theorem setters_persist:
  "setRepeat mode w = w\<lparr>store := (store w)\<lparr>repeat := mode\<rparr>,
      storage := savePlayerState ((store w)\<lparr>repeat := mode\<rparr>) (storage w)\<rparr>
   \<and> setVolume v w = w\<lparr>store := (store w)\<lparr>volume := max 0 (min 1 v)\<rparr>,
      storage := savePlayerState ((store w)\<lparr>volume := max 0 (min 1 v)\<rparr>) (storage w)\<rparr>
   \<and> setIsPlaying p w = w\<lparr>store := (store w)\<lparr>isPlaying := p\<rparr>,
      storage := savePlayerState ((store w)\<lparr>isPlaying := p\<rparr>) (storage w)\<rparr>
   \<and> setCurrentSong c w = w\<lparr>store := (store w)\<lparr>currentSong := c\<rparr>,
      storage := savePlayerState ((store w)\<lparr>currentSong := c\<rparr>) (storage w)\<rparr>
   \<and> REPEAT (storage (setRepeat mode w)) = Some mode
   \<and> VOLUME (storage (setVolume v w)) = Some (max 0 (min 1 v))
   \<and> CURRENT_SONG (storage (setCurrentSong c w)) = c
   \<and> storage (setCurrentTime t w) = storage w
   \<and> storage (setDuration d w) = storage w
   \<and> storage (setIsLoading l w) = storage w"
  by (simp add: setRepeat_def setVolume_def setIsPlaying_def setCurrentSong_def
      setCurrentTime_def setDuration_def setIsLoading_def savePlayerState_slots Let_def)

text \<open>
  C8: \<open>seekTo t\<close> changes no field of the store but \<open>currentTime\<close>, leaves the play
  history, the storage (no persistence write) and the random source as they are, and
  sets \<open>currentTime\<close> to \<open>t\<close> clamped into \<open>[0, duration]\<close>: 0 below the interval,
  \<open>duration\<close> above it, \<open>t\<close> inside. With \<open>duration = 200\<close>, \<open>seekTo 250\<close> gives 200.
\<close>

theorem seekTo_clamps:
  "(store (seekTo t w))\<lparr>currentTime := currentTime (store w)\<rparr> = store w
   \<and> playHistory (seekTo t w) = playHistory w
   \<and> storage (seekTo t w) = storage w
   \<and> randoms (seekTo t w) = randoms w
   \<and> (0 \<le> duration (store w) \<longrightarrow>
        currentTime (store (seekTo t w))
          = (if t < 0 then 0 else if duration (store w) < t then duration (store w) else t))
   \<and> (duration (store w) = 200 \<longrightarrow> currentTime (store (seekTo 250 w)) = 200)"
  by (simp add: seekTo_def Let_def)

theorem seekTo_clamps_witness:
  "duration (store (setDuration 200 freshWorld)) = 200
   \<and> currentTime (store (seekTo 250 (setDuration 200 freshWorld))) = 200
   \<and> currentTime (store (seekTo (- 3) (setDuration 200 freshWorld))) = 0
   \<and> currentTime (store (seekTo 42 (setDuration 200 freshWorld))) = 42"
  using seekTo_clamps [where t = 250 and w = "setDuration 200 freshWorld"]
    seekTo_clamps [where t = "- 3" and w = "setDuration 200 freshWorld"]
    seekTo_clamps [where t = 42 and w = "setDuration 200 freshWorld"]
  by (simp add: setDuration_def freshWorld_def defaultState_def)

text \<open>
  C9 fails for \<open>resumeSong\<close> over an empty queue: with a current song it sets
  \<open>isPlaying\<close>, since it looks at \<open>currentSong\<close> only.
\<close>

theorem resumeSong_empty_queue_counterexample:
  "queue (store orphanWorld) = [] \<and> \<not> isPlaying (store orphanWorld)
   \<and> isPlaying (store (resumeSong orphanWorld))
   \<and> resumeSong orphanWorld \<noteq> orphanWorld"
proof -
  have a: "queue (store orphanWorld) = []" "\<not> isPlaying (store orphanWorld)"
    by (simp_all add: data_defs orphanWorld_def)
  have b: "isPlaying (store (resumeSong orphanWorld))"
    by (simp add: resumeSong_def data_defs orphanWorld_def Let_def)
  from a b have "resumeSong orphanWorld \<noteq> orphanWorld" by metis
  with a b show ?thesis by simp
qed

text \<open>
  C9, amended: \<open>removeFromQueue\<close> with an index outside \<open>[0, queue.length)\<close>,
  \<open>reorderQueue\<close> with either argument outside that range, \<open>resumeSong\<close> without a
  current song, and \<open>nextSong\<close> and \<open>previousSong\<close> without a current song or with an
  empty queue return without an error and leave the store, the play history, the
  storage and the random source unchanged.
\<close>

theorem defensive_noops:
  "(index < 0 \<or> int (length (queue (store w))) \<le> index \<longrightarrow> removeFromQueue index w = Inr w)
   \<and> (fromIndex < 0 \<or> int (length (queue (store w))) \<le> fromIndex
        \<or> toIndex < 0 \<or> int (length (queue (store w))) \<le> toIndex
      \<longrightarrow> reorderQueue fromIndex toIndex w = Inr w)
   \<and> (currentSong (store w) = None \<longrightarrow> resumeSong w = w)
   \<and> (currentSong (store w) = None \<or> queue (store w) = []
      \<longrightarrow> nextSong w = Inr w \<and> previousSong w = Inr w)"
  by (auto simp add: removeFromQueue_def reorderQueue_def resumeSong_def nextSong_def
      previousSong_def Let_def split: option.splits)

theorem defensive_noops_witness:
  "removeFromQueue 3 scenarioWorld = Inr scenarioWorld
   \<and> removeFromQueue (- 1) scenarioWorld = Inr scenarioWorld
   \<and> reorderQueue 0 3 scenarioWorld = Inr scenarioWorld
   \<and> reorderQueue (- 1) 0 scenarioWorld = Inr scenarioWorld
   \<and> resumeSong freshWorld = freshWorld
   \<and> nextSong freshWorld = Inr freshWorld
   \<and> previousSong freshWorld = Inr freshWorld
   \<and> nextSong orphanWorld = Inr orphanWorld
   \<and> previousSong orphanWorld = Inr orphanWorld"
  using defensive_noops [where w = scenarioWorld and index = 3 and fromIndex = 0
      and toIndex = 3]
    defensive_noops [where w = scenarioWorld and index = "- 1" and fromIndex = "- 1"
      and toIndex = 0]
    defensive_noops [where w = freshWorld]
    defensive_noops [where w = orphanWorld]
  by (simp add: data_defs orphanWorld_def)

text \<open>
  C10: \<open>clearQueue\<close> empties \<open>queue\<close>, \<open>originalQueue\<close> and \<open>shuffledQueue\<close>, clears
  \<open>currentSong\<close>, sets \<open>isPlaying\<close> to false and \<open>currentTime\<close> and \<open>duration\<close> to 0, and
  leaves \<open>shuffle\<close>, \<open>repeat\<close> and \<open>volume\<close> at the values they had: they are not put
  back to their defaults.
\<close>

theorem clearQueue_keeps_settings:
  "queue (store (clearQueue w)) = [] \<and> originalQueue (store (clearQueue w)) = []
   \<and> shuffledQueue (store (clearQueue w)) = [] \<and> currentSong (store (clearQueue w)) = None
   \<and> \<not> isPlaying (store (clearQueue w)) \<and> currentTime (store (clearQueue w)) = 0
   \<and> duration (store (clearQueue w)) = 0
   \<and> shuffle (store (clearQueue w)) = shuffle (store w)
   \<and> repeat (store (clearQueue w)) = repeat (store w)
   \<and> volume (store (clearQueue w)) = volume (store w)"
  by (simp add: clearQueue_def Let_def)

end
